theory Spec2Isabelle
  imports Complex_Main "HOL-Library.AList"
begin

section \<open>Python values\<close>

text \<open>
  The agents exchange JSON-shaped dictionaries. A value is one of Python's JSON-shaped
  objects; a dictionary keeps its insertion order, so it is an association list with
  string keys. A float is modelled by the rational number it denotes: rounding, infinities
  and NaN are outside the model.
\<close>

datatype pyval =
    PNone
  | PBool bool
  | PInt int
  | PFloat rat
  | PStr string
  | PList "pyval list"
  | PDict "(string \<times> pyval) list"

type_synonym pydict = "(string \<times> pyval) list"

datatype py_exn =
  AttributeError | TypeError | ValueError | OverflowError | KeyError | RuntimeError

text \<open>\<^verbatim>\<open>d.get(k, default)\<close> and \<^verbatim>\<open>d[k] = v\<close> (an existing key keeps its place).\<close>

definition dict_get :: "pydict \<Rightarrow> string \<Rightarrow> pyval \<Rightarrow> pyval" where
  "dict_get d k dflt = (case map_of d k of None \<Rightarrow> dflt | Some v \<Rightarrow> v)"

definition dict_set :: "pydict \<Rightarrow> string \<Rightarrow> pyval \<Rightarrow> pydict" where
  "dict_set d k v = AList.update k v d"

text \<open>\<^verbatim>\<open>d[k]\<close> raises KeyError on a missing key.\<close>

definition dict_item :: "pydict \<Rightarrow> string \<Rightarrow> py_exn + pyval" where
  "dict_item d k = (case map_of d k of None \<Rightarrow> Inl KeyError | Some v \<Rightarrow> Inr v)"

text \<open>Truthiness, as \<^verbatim>\<open>if x:\<close> and \<^verbatim>\<open>not x\<close> read it.\<close>

fun truthy :: "pyval \<Rightarrow> bool" where
  "truthy PNone = False"
| "truthy (PBool b) = b"
| "truthy (PInt n) = (n \<noteq> 0)"
| "truthy (PFloat r) = (r \<noteq> 0)"
| "truthy (PStr s) = (s \<noteq> [])"
| "truthy (PList xs) = (xs \<noteq> [])"
| "truthy (PDict d) = (d \<noteq> [])"

text \<open>
  \<^verbatim>\<open>float(x)\<close>. None, a list and a dictionary raise TypeError; a string that is not
  a number raises ValueError (the parser of float literals is the parameter \<open>sf\<close>, which
  gives \<open>None\<close> for such a string); an integer too large for a double raises OverflowError:
  the largest double is \<open>2^1024 - 2^971\<close> and conversion rounds to nearest, so every
  integer of magnitude at least \<open>2^1024 - 2^970\<close> overflows.
\<close>

definition float_int_overflow :: "int \<Rightarrow> bool" where
  "float_int_overflow n = (\<bar>n\<bar> \<ge> 2 ^ 1024 - 2 ^ 970)"

fun py_float :: "(string \<Rightarrow> rat option) \<Rightarrow> pyval \<Rightarrow> py_exn + rat" where
  "py_float sf PNone = Inl TypeError"
| "py_float sf (PBool b) = Inr (if b then 1 else 0)"
| "py_float sf (PInt n) = (if float_int_overflow n then Inl OverflowError else Inr (of_int n))"
| "py_float sf (PFloat r) = Inr r"
| "py_float sf (PStr s) = (case sf s of None \<Rightarrow> Inl ValueError | Some r \<Rightarrow> Inr r)"
| "py_float sf (PList xs) = Inl TypeError"
| "py_float sf (PDict d) = Inl TypeError"

section \<open>The scoring engine (agents/ranking\_agent.py)\<close>

text \<open>
  \<^verbatim>\<open>_calculate_enhanced_score\<close>, one definition per block of its \<^verbatim>\<open>try\<close> body.
  Each block takes the running \<^verbatim>\<open>enhanced_score\<close> and the \<^verbatim>\<open>comparison_details\<close>
  dictionary.
\<close>

definition skills_adjust :: "pydict \<Rightarrow> rat \<Rightarrow> rat" where
  "skills_adjust cd e =
     (case dict_get cd ''skills_match'' (PDict []) of
        PDict sm \<Rightarrow>
          (let matched_skills = dict_get sm ''matched_skills'' (PList []);
               missing_skills = dict_get sm ''missing_skills'' (PList []);
               e1 = (case matched_skills of
                       PList ms \<Rightarrow>
                         if length ms > 0 then e + min (1 / 10) (of_nat (length ms) * (2 / 100))
                         else e
                     | _ \<Rightarrow> e)
           in (case missing_skills of
                 PList ms \<Rightarrow>
                   if length ms > 0 then e1 - min (1 / 10) (of_nat (length ms) * (15 / 1000))
                   else e1
               | _ \<Rightarrow> e1))
      | _ \<Rightarrow> e)"

text \<open>
  The inner \<^verbatim>\<open>try\<close> around \<^verbatim>\<open>float(relevance_score)\<close> catches ValueError and TypeError
  only; an OverflowError leaves the block.
\<close>

definition experience_adjust :: "(string \<Rightarrow> rat option) \<Rightarrow> pydict \<Rightarrow> rat \<Rightarrow> py_exn + rat" where
  "experience_adjust sf cd e =
     (case dict_get cd ''experience_match'' (PDict []) of
        PDict em \<Rightarrow>
          (case py_float sf (dict_get em ''relevance_score'' (PInt 0)) of
             Inr relevance_score \<Rightarrow> Inr (if relevance_score > 7 / 10 then e + 5 / 100 else e)
           | Inl x \<Rightarrow> if x = ValueError \<or> x = TypeError then Inr e else Inl x)
      | _ \<Rightarrow> Inr e)"

definition education_adjust :: "pydict \<Rightarrow> rat \<Rightarrow> rat" where
  "education_adjust cd e =
     (case dict_get cd ''education_match'' (PDict []) of
        PDict em \<Rightarrow>
          if truthy (dict_get em ''meets_requirements'' (PBool False)) then e + 3 / 100 else e
      | _ \<Rightarrow> e)"

definition assessment_adjust :: "pydict \<Rightarrow> rat \<Rightarrow> rat" where
  "assessment_adjust cd e =
     (case dict_get cd ''overall_assessment'' (PDict []) of
        PDict oa \<Rightarrow>
          (let recommendation = dict_get oa ''recommendation'' (PStr '''')
           in if recommendation = PStr ''highly_recommended'' then e + 8 / 100
              else if recommendation = PStr ''recommended'' then e + 4 / 100
              else if recommendation = PStr ''not_recommended'' then e - 5 / 100
              else e)
      | _ \<Rightarrow> e)"

text \<open>
  The body of the \<^verbatim>\<open>try\<close>: the early return on a \<^verbatim>\<open>comparison_details\<close> that is not a
  dictionary hands back the base score as it is; only the last line clamps.
\<close>

definition enhanced_score_body :: "(string \<Rightarrow> rat option) \<Rightarrow> pydict \<Rightarrow> py_exn + rat" where
  "enhanced_score_body sf result =
     (let base0 = dict_get result ''similarity_score'' (PFloat 0);
          base1 = (if base0 = PNone then PFloat 0 else base0)
      in case py_float sf base1 of
           Inl x \<Rightarrow> Inl x
         | Inr base_score \<Rightarrow>
             (case dict_get result ''comparison_details'' (PDict []) of
                PDict cd \<Rightarrow>
                  (case experience_adjust sf cd (skills_adjust cd base_score) of
                     Inl x \<Rightarrow> Inl x
                   | Inr e \<Rightarrow> Inr (max 0 (min 1 (assessment_adjust cd (education_adjust cd e)))))
              | _ \<Rightarrow> Inr base_score))"

text \<open>
  The \<^verbatim>\<open>except Exception\<close> handler: the base score again, 0.0 on ValueError or
  TypeError; an OverflowError raised here leaves the function.
\<close>

definition enhanced_score_fallback :: "(string \<Rightarrow> rat option) \<Rightarrow> pydict \<Rightarrow> py_exn + rat" where
  "enhanced_score_fallback sf result =
     (let base_score = dict_get result ''similarity_score'' (PFloat 0)
      in if base_score = PNone then Inr 0
         else (case py_float sf base_score of
                 Inr r \<Rightarrow> Inr r
               | Inl x \<Rightarrow> if x = ValueError \<or> x = TypeError then Inr 0 else Inl x))"

text \<open>
  A \<^verbatim>\<open>result\<close> that is not a dictionary has no \<^verbatim>\<open>get\<close>: the AttributeError is raised
  in the body and again in the handler.
\<close>

definition calculate_enhanced_score :: "(string \<Rightarrow> rat option) \<Rightarrow> pyval \<Rightarrow> py_exn + rat" where
  "calculate_enhanced_score sf result =
     (case result of
        PDict d \<Rightarrow>
          (case enhanced_score_body sf d of
             Inr r \<Rightarrow> Inr r
           | Inl x \<Rightarrow> enhanced_score_fallback sf d)
      | _ \<Rightarrow> Inl AttributeError)"

section \<open>Ranking (agents/ranking\_agent.py, models/ranking.py)\<close>

text \<open>
  The \<^verbatim>\<open>Ranking\<close> dataclass. The field \<^verbatim>\<open>id\<close> is \<open>ranking_id\<close> here; a rank position
  is the counter of \<^verbatim>\<open>enumerate(ranked_results, 1)\<close>.
\<close>

record ranking =
  ranking_id :: "int option"
  job_id :: pyval
  application_id :: pyval
  similarity_score :: rat
  rank_position :: nat
  ranking_details :: pydict
  created_at :: "int option"
  applicant_name :: pyval
  job_title :: pyval

text \<open>
  What the agent reaches outside itself: the parser behind \<^verbatim>\<open>float(str)\<close>, the database
  (state \<open>'db\<close>), the clock and the texts Python prints for an exception.
  \<open>save_ranking\<close> stands for \<^verbatim>\<open>_save_ranking\<close>, the \<^verbatim>\<open>INSERT ... RETURNING id\<close>: it
  gives \<open>None\<close> when the insert raises or returns no row. \<open>ranking_insights\<close> stands for
  \<^verbatim>\<open>_generate_ranking_insights\<close>, which only reads the rankings and never raises.
\<close>

record 'db ranking_env =
  str_float :: "string \<Rightarrow> rat option"
  clear_existing_rankings :: "pyval \<Rightarrow> 'db \<Rightarrow> 'db"
  save_ranking :: "ranking \<Rightarrow> 'db \<Rightarrow> int option \<times> 'db"
  log_ranking_completed :: "pyval \<Rightarrow> ranking list \<Rightarrow> 'db \<Rightarrow> 'db"
  time_time :: "nat \<Rightarrow> rat"
  ranking_insights :: "ranking list \<Rightarrow> pyval"
  exn_str :: "py_exn \<Rightarrow> string"
  val_str :: "pyval \<Rightarrow> string"











section \<open>The message bus (agents/agent\_protocol.py)\<close>

text \<open>
  The status \<^verbatim>\<open>AgentStatus.ERROR\<close> is \<open>AGENT_ERROR\<close> here, since \<open>ERROR\<close> is a message
  type. A \<^verbatim>\<open>datetime\<close> is the number of microseconds since \<^verbatim>\<open>datetime.min\<close>
  (naive local time, as \<^verbatim>\<open>datetime.now()\<close> gives it).
\<close>

datatype MessageType = REQUEST | RESPONSE | NOTIFICATION | ERROR | HEARTBEAT | ACK

datatype MessagePriority = LOW | NORMAL | HIGH | CRITICAL

datatype AgentStatus = ACTIVE | BUSY | INACTIVE | AGENT_ERROR

record AgentCapability =
  capability_name :: string
  description :: string
  input_schema :: pyval
  output_schema :: pyval

record AgentMessage =
  sender :: string
  receiver :: string
  message_type :: MessageType
  payload :: pyval
  message_id :: string
  timestamp :: int
  correlation_id :: "string option"
  priority :: MessagePriority
  retry_count :: int
  expires_at :: "int option"
  requires_ack :: bool

text \<open>
  \<^verbatim>\<open>timedelta(seconds=n)\<close> holds at most 999999999 days, and a \<^verbatim>\<open>datetime\<close> ends with
  the year 9999: both raise OverflowError beyond.
\<close>

definition datetime_max :: int where
  "datetime_max = 3652059 * 86400 * 1000000 - 1"

definition timedelta_seconds :: "int \<Rightarrow> py_exn + int" where
  "timedelta_seconds n =
     (if - 999999999 \<le> n div 86400 \<and> n div 86400 \<le> 999999999 then Inr (n * 1000000)
      else Inl OverflowError)"

definition datetime_add :: "int \<Rightarrow> int \<Rightarrow> py_exn + int" where
  "datetime_add t delta =
     (if 0 \<le> t + delta \<and> t + delta \<le> datetime_max then Inr (t + delta)
      else Inl OverflowError)"

text \<open>
  \<^verbatim>\<open>__post_init__\<close>, which the generated constructor runs on the fields it was given
  (\<open>a2a_message_timeout\<close> is \<^verbatim>\<open>settings.A2A_MESSAGE_TIMEOUT\<close>): a constructed message is
  \<open>post_init a2a_message_timeout fields\<close>.
\<close>

definition post_init :: "int \<Rightarrow> AgentMessage \<Rightarrow> py_exn + AgentMessage" where
  "post_init a2a_message_timeout m =
     (case expires_at m of
        None \<Rightarrow>
          (case timedelta_seconds a2a_message_timeout of
             Inl x \<Rightarrow> Inl x
           | Inr delta \<Rightarrow>
               (case datetime_add (timestamp m) delta of
                  Inl x \<Rightarrow> Inl x
                | Inr e \<Rightarrow> Inr (m\<lparr>expires_at := Some e\<rparr>)))
      | Some e \<Rightarrow> Inr m)"

definition is_expired :: "int \<Rightarrow> AgentMessage \<Rightarrow> bool" where
  "is_expired now m = (case expires_at m of None \<Rightarrow> False | Some e \<Rightarrow> now > e)"

definition validate_message :: "int \<Rightarrow> AgentMessage \<Rightarrow> bool" where
  "validate_message now m =
     (if sender m = [] \<or> receiver m = [] then False
      else if is_expired now m then False
      else (case payload m of PDict d \<Rightarrow> True | _ \<Rightarrow> False))"

text \<open>
  A registration names its agent object and its optional handler by a number; what such
  a callable does is given by the behaviour below.
\<close>

record AgentRegistration =
  agent_name :: string
  agent_instance :: nat
  capabilities :: "AgentCapability list"
  status :: AgentStatus
  last_heartbeat :: int
  message_handler :: "nat option"

text \<open>
  The bus. Messages and registrations are objects that the bus and its callers share, so
  they live in two stores and the lists hold references: \<open>registered_agents\<close> is the
  dictionary from a name to its registration object, \<open>message_history\<close> and
  \<open>failed_messages\<close> list message objects. \<open>retry_threads\<close> lists the retry threads
  started so far, each with the delay it sleeps and the message it will deliver.
  \<open>next_registration\<close> and \<open>next_message\<close> are the places of the next objects that the
  bus itself creates.
\<close>

record AgentProtocol =
  registered_agents :: "(string \<times> nat) list"
  registrations :: "nat \<Rightarrow> AgentRegistration"
  next_registration :: nat
  messages :: "nat \<Rightarrow> AgentMessage"
  next_message :: nat
  message_history :: "nat list"
  failed_messages :: "nat list"
  retry_threads :: "(rat \<times> nat) list"

text \<open>
  The code that a delivery calls: the registration's \<^verbatim>\<open>message_handler\<close>, or else the
  \<^verbatim>\<open>receive_message\<close> of its agent object. It gets the message and may do anything to
  the bus (send, register, send a heartbeat) before it returns or raises.
\<close>

datatype callee = Handler nat | Instance nat

datatype outcome = Returned | Raised

type_synonym behaviour = "callee \<Rightarrow> nat \<Rightarrow> AgentProtocol \<Rightarrow> outcome \<times> AgentProtocol"

definition set_status :: "nat \<Rightarrow> AgentStatus \<Rightarrow> AgentProtocol \<Rightarrow> AgentProtocol" where
  "set_status g st p =
     p\<lparr>registrations := (registrations p)(g := (registrations p g)\<lparr>status := st\<rparr>)\<rparr>"

text \<open>
  The first half of \<^verbatim>\<open>register_agent\<close>: the new registration object (status ACTIVE,
  heartbeat \<open>now\<close>) replaces the one under the name.
\<close>

definition install_registration ::
  "int \<Rightarrow> string \<Rightarrow> nat \<Rightarrow> AgentCapability list \<Rightarrow> nat option \<Rightarrow> AgentProtocol \<Rightarrow> AgentProtocol" where
  "install_registration now name inst caps handler p =
     (let g = next_registration p;
          registration = \<lparr>agent_name = name, agent_instance = inst, capabilities = caps,
                          status = ACTIVE, last_heartbeat = now, message_handler = handler\<rparr>
      in p\<lparr>registered_agents := AList.update name g (registered_agents p),
           registrations := (registrations p)(g := registration),
           next_registration := Suc g\<rparr>)"

text \<open>
  \<^verbatim>\<open>_deliver_message_sync\<close> for the message object \<open>r\<close>. An unknown receiver is the
  KeyError of the outer \<^verbatim>\<open>try\<close>. The status is never read to decide anything: it is
  saved, set to BUSY, and written back after the call.
\<close>

definition delivery_target :: "AgentRegistration \<Rightarrow> callee" where
  "delivery_target receiver_reg =
     (case message_handler receiver_reg of
        Some h \<Rightarrow> Handler h
      | None \<Rightarrow> Instance (agent_instance receiver_reg))"

definition deliver_message_sync :: "behaviour \<Rightarrow> nat \<Rightarrow> AgentProtocol \<Rightarrow> bool \<times> AgentProtocol" where
  "deliver_message_sync beh r p =
     (case map_of (registered_agents p) (receiver (messages p r)) of
        None \<Rightarrow> (False, p)
      | Some g \<Rightarrow>
          (let old_status = status (registrations p g);
               p1 = set_status g BUSY p
           in case beh (delivery_target (registrations p1 g)) r p1 of
                (Returned, p2) \<Rightarrow> (True, set_status g old_status p2)
              | (Raised, p2) \<Rightarrow> (False, set_status g AGENT_ERROR p2)))"

text \<open>
  \<^verbatim>\<open>_broadcast_agent_event\<close>. What the loop reads from outside: the clock (two readings
  for the event at position \<open>i\<close>, one for the payload and one for the message), the
  \<^verbatim>\<open>uuid4\<close> of the message and the text of a time.
\<close>

record event_env =
  datetime_now :: "nat \<Rightarrow> int"
  uuid4 :: "nat \<Rightarrow> string"
  isoformat :: "int \<Rightarrow> string"

definition event_fields :: "event_env \<Rightarrow> nat \<Rightarrow> string \<Rightarrow> string \<Rightarrow> string \<Rightarrow> AgentMessage" where
  "event_fields ev i reg_name name event_type =
     \<lparr>sender = ''system'', receiver = reg_name, message_type = NOTIFICATION,
      payload = PDict [(''event_type'', PStr event_type),
                       (''agent_name'', PStr name),
                       (''timestamp'', PStr (isoformat ev (datetime_now ev (2 * i))))],
      message_id = uuid4 ev i, timestamp = datetime_now ev (2 * i + 1), correlation_id = None,
      priority = NORMAL, retry_count = 0, expires_at = None, requires_ack = False\<rparr>"

text \<open>
  The loop runs over the items of the live dictionary: \<open>n0\<close> is its size when the loop
  started and \<open>k\<close> the number of items still to come, so the item in hand is at position
  \<open>n0 - Suc k\<close>. A handler that has changed the number of registered names makes the next
  step of the iterator raise RuntimeError; a registration that a handler has replaced is
  read as replaced. The event goes to every other agent whose status is ACTIVE, through
  \<^verbatim>\<open>_deliver_message_sync\<close>, whose result is dropped; an exception of the message
  constructor leaves the loop.
\<close>

fun broadcast_from ::
  "behaviour \<Rightarrow> int \<Rightarrow> event_env \<Rightarrow> string \<Rightarrow> string \<Rightarrow> nat \<Rightarrow> nat \<Rightarrow> AgentProtocol
     \<Rightarrow> py_exn option \<times> AgentProtocol" where
  "broadcast_from beh a2a_message_timeout ev name event_type n0 0 p =
     (if length (registered_agents p) \<noteq> n0 then (Some RuntimeError, p) else (None, p))"
| "broadcast_from beh a2a_message_timeout ev name event_type n0 (Suc k) p =
     (if length (registered_agents p) \<noteq> n0 then (Some RuntimeError, p)
      else (let i = n0 - Suc k;
                reg_name = fst (registered_agents p ! i);
                g = snd (registered_agents p ! i)
            in if reg_name \<noteq> name \<and> status (registrations p g) = ACTIVE
               then (case post_init a2a_message_timeout (event_fields ev i reg_name name event_type) of
                       Inl x \<Rightarrow> (Some x, p)
                     | Inr event_message \<Rightarrow>
                         (let r = next_message p;
                              p1 = p\<lparr>messages := (messages p)(r := event_message),
                                     next_message := Suc r\<rparr>
                          in broadcast_from beh a2a_message_timeout ev name event_type n0 k
                               (snd (deliver_message_sync beh r p1))))
               else broadcast_from beh a2a_message_timeout ev name event_type n0 k p))"

definition broadcast_agent_event ::
  "behaviour \<Rightarrow> int \<Rightarrow> event_env \<Rightarrow> string \<Rightarrow> string \<Rightarrow> AgentProtocol
     \<Rightarrow> py_exn option \<times> AgentProtocol" where
  "broadcast_agent_event beh a2a_message_timeout ev name event_type p =
     broadcast_from beh a2a_message_timeout ev name event_type
       (length (registered_agents p)) (length (registered_agents p)) p"

text \<open>
  \<^verbatim>\<open>register_agent\<close> at the time \<open>now\<close>: the registration, then the broadcast of
  \<^verbatim>\<open>agent_registered\<close>. An exception of the broadcast leaves \<^verbatim>\<open>register_agent\<close> with
  the registration done.
\<close>

definition register_agent ::
  "behaviour \<Rightarrow> int \<Rightarrow> event_env \<Rightarrow> int \<Rightarrow> string \<Rightarrow> nat \<Rightarrow> AgentCapability list \<Rightarrow> nat option
     \<Rightarrow> AgentProtocol \<Rightarrow> py_exn option \<times> AgentProtocol" where
  "register_agent beh a2a_message_timeout ev now name inst caps handler p =
     broadcast_agent_event beh a2a_message_timeout ev name ''agent_registered''
       (install_registration now name inst caps handler p)"

text \<open>
  \<^verbatim>\<open>_handle_delivery_failure\<close> (\<open>a2a_max_retries\<close> is \<^verbatim>\<open>settings.A2A_MAX_RETRIES\<close>).
  \<^verbatim>\<open>2 ** n\<close> is a float for a negative \<open>n\<close>.
\<close>

definition retry_delay :: "int \<Rightarrow> rat" where
  "retry_delay n = min (2 powi n) 5"

definition handle_delivery_failure :: "int \<Rightarrow> nat \<Rightarrow> AgentProtocol \<Rightarrow> AgentProtocol" where
  "handle_delivery_failure a2a_max_retries r p =
     (if retry_count (messages p r) < a2a_max_retries
      then (let m = (messages p r)\<lparr>retry_count := retry_count (messages p r) + 1\<rparr>
            in p\<lparr>messages := (messages p)(r := m),
                 retry_threads := retry_threads p @ [(retry_delay (retry_count m), r)]\<rparr>)
      else p\<lparr>failed_messages := failed_messages p @ [r]\<rparr>)"

text \<open>The body of a retry thread, \<^verbatim>\<open>retry_later\<close>, once its sleep is over.\<close>

definition retry_later :: "behaviour \<Rightarrow> int \<Rightarrow> nat \<Rightarrow> AgentProtocol \<Rightarrow> AgentProtocol" where
  "retry_later beh a2a_max_retries r p =
     (case deliver_message_sync beh r p of
        (True, p1) \<Rightarrow> p1
      | (False, p1) \<Rightarrow> handle_delivery_failure a2a_max_retries r p1)"

text \<open>\<^verbatim>\<open>send_message\<close> at the time \<open>now\<close>.\<close>

definition send_message ::
  "behaviour \<Rightarrow> int \<Rightarrow> int \<Rightarrow> nat \<Rightarrow> AgentProtocol \<Rightarrow> bool \<times> AgentProtocol" where
  "send_message beh a2a_max_retries now r p =
     (if \<not> validate_message now (messages p r) then (False, p)
      else if map_of (registered_agents p) (receiver (messages p r)) = None
      then (False, p\<lparr>failed_messages := failed_messages p @ [r]\<rparr>)
      else (case deliver_message_sync beh r (p\<lparr>message_history := message_history p @ [r]\<rparr>) of
              (True, p1) \<Rightarrow> (True, p1)
            | (False, p1) \<Rightarrow> (False, handle_delivery_failure a2a_max_retries r p1)))"





section \<open>The ranking and communication agents on the bus\<close>













section \<open>Vocabulary of the statements\<close>











section \<open>Sample inputs\<close>

text \<open>
  Concrete collaborators and inputs, on which the statements below are run. The sample
  database always saves, the sample job exists, and the sample handlers return.
\<close>

definition sample_ranking_env :: "unit ranking_env" where
  "sample_ranking_env =
     \<lparr>str_float = (\<lambda>s. None), clear_existing_rankings = (\<lambda>j db. db),
      save_ranking = (\<lambda>r db. (Some 1, db)), log_ranking_completed = (\<lambda>j rs db. db),
      time_time = (\<lambda>i. 0), ranking_insights = (\<lambda>rs. PNone),
      exn_str = (\<lambda>x. ''exception''), val_str = (\<lambda>v. ''value'')\<rparr>"

definition unclamped_result :: pyval where
  "unclamped_result =
     PDict [(''application_id'', PInt 7), (''similarity_score'', PFloat (3 / 2)),
            (''comparison_details'', PNone)]"














definition sample_behaviour :: behaviour where
  "sample_behaviour target r p = (Returned, p)"

definition sample_registration :: AgentRegistration where
  "sample_registration =
     \<lparr>agent_name = ''ranking_agent'', agent_instance = 0, capabilities = [],
      status = AGENT_ERROR, last_heartbeat = 0, message_handler = None\<rparr>"

definition fresh_fields :: AgentMessage where
  "fresh_fields =
     \<lparr>sender = ''comparison_agent'', receiver = ''ranking_agent'', message_type = REQUEST,
      payload = PDict [(''action'', PStr ''rank_applications'')], message_id = ''m1'',
      timestamp = 100, correlation_id = None, priority = NORMAL, retry_count = 0,
      expires_at = None, requires_ack = False\<rparr>"

definition sample_message :: AgentMessage where
  "sample_message = fresh_fields\<lparr>expires_at := Some 30000100\<rparr>"

definition early_expiry_fields :: AgentMessage where
  "early_expiry_fields = fresh_fields\<lparr>expires_at := Some 50\<rparr>"

definition sample_protocol :: AgentProtocol where
  "sample_protocol =
     \<lparr>registered_agents = [(''ranking_agent'', 0)],
      registrations = (\<lambda>g. sample_registration),
      next_registration = 1,
      messages = (\<lambda>r. sample_message),
      next_message = 1,
      message_history = [], failed_messages = [], retry_threads = []\<rparr>"

definition unregistered_protocol :: AgentProtocol where
  "unregistered_protocol = sample_protocol\<lparr>registered_agents := []\<rparr>"

definition sample_event_env :: event_env where
  "sample_event_env =
     \<lparr>datetime_now = (\<lambda>k. 10 + int k), uuid4 = (\<lambda>k. ''event''), isoformat = (\<lambda>t. ''0001-01-01T00:00:00'')\<rparr>"

text \<open>
  An agent whose handler, while it processes message 0, sends message 1 to its own agent,
  and raises on message 1.
\<close>

definition own_message :: AgentMessage where
  "own_message = sample_message\<lparr>sender := ''ranking_agent'', message_id := ''m2''\<rparr>"

definition nested_protocol :: AgentProtocol where
  "nested_protocol =
     sample_protocol\<lparr>registrations := (\<lambda>g. sample_registration\<lparr>status := ACTIVE\<rparr>),
                     messages := (\<lambda>r. if r = 1 then own_message else sample_message),
                     next_message := 2\<rparr>"

definition raising_behaviour :: behaviour where
  "raising_behaviour target r p = (Raised, p)"


section \<open>Dictionaries, lists and the stable descending sort\<close>



lemma dict_item_set_other: "k' \<noteq> k \<Longrightarrow> dict_item (dict_set d k v) k' = dict_item d k'"
  by (simp add: dict_item_def dict_set_def update_conv')













section \<open>The scoring engine clamps on its main path\<close>

lemma enhanced_score_body_clamped:
  "enhanced_score_body sf d = Inr r \<Longrightarrow>
   dict_get d ''comparison_details'' (PDict []) = PDict cd \<Longrightarrow> 0 \<le> r \<and> r \<le> 1"
  by (auto simp: enhanced_score_body_def Let_def split: sum.splits pyval.splits)

section \<open>The two loops of rank\_applications\<close>













section \<open>The notification and the bus\<close>


lemma delivery_target_set_status:
  "delivery_target (registrations (set_status g st p) g) = delivery_target (registrations p g)"
  by (simp add: set_status_def delivery_target_def split: option.splits)

lemma set_status_twice: "set_status g st (set_status g st' p) = set_status g st p"
  by (simp add: set_status_def)

lemma status_set_status: "status (registrations (set_status g st p) g) = st"
  by (simp add: set_status_def)

lemma deliver_status:
  assumes "map_of (registered_agents p) (receiver (messages p r)) = Some g"
  shows "status (registrations (snd (deliver_message_sync beh r p)) g) =
           (if fst (deliver_message_sync beh r p) then status (registrations p g) else AGENT_ERROR)"
proof (cases "beh (delivery_target (registrations p g)) r (set_status g BUSY p)")
  case (Pair out p2)
  then show ?thesis
    using assms
    by (cases out)
       (simp_all add: deliver_message_sync_def delivery_target_set_status status_set_status Let_def)
qed

lemma handle_delivery_failure_registrations:
  "registrations (handle_delivery_failure n r p) = registrations p"
  by (simp add: handle_delivery_failure_def Let_def)



lemma set_status_history:
  "set_status g st' ((set_status g st p)\<lparr>message_history := h\<rparr>) = set_status g st' (p\<lparr>message_history := h\<rparr>)"
  by (simp add: set_status_def)

lemma retry_delay_nat: "retry_delay (int n) = min (2 ^ n) 5"
  by (simp add: retry_delay_def)

lemma handle_delivery_failure_retry:
  "retry_count (messages q r) < n \<Longrightarrow>
   retry_count (messages (handle_delivery_failure n r q) r) = retry_count (messages q r) + 1 \<and>
   retry_threads (handle_delivery_failure n r q) =
     retry_threads q @ [(retry_delay (retry_count (messages q r) + 1), r)] \<and>
   failed_messages (handle_delivery_failure n r q) = failed_messages q"
  by (simp add: handle_delivery_failure_def Let_def)

lemma retry_chain:
  "retry_count (messages p r) = int c \<Longrightarrow> int c + int k \<le> n \<Longrightarrow>
   retry_count (messages ((handle_delivery_failure n r ^^ k) p) r) = int c + int k \<and>
   retry_threads ((handle_delivery_failure n r ^^ k) p) =
     retry_threads p @ map (\<lambda>N. (min (2 ^ N) 5, r)) [Suc c..<Suc (c + k)] \<and>
   failed_messages ((handle_delivery_failure n r ^^ k) p) = failed_messages p"
proof (induction k)
  case 0
  then show ?case by simp
next
  case (Suc k)
  let ?q = "(handle_delivery_failure n r ^^ k) p"
  from Suc have ih: "retry_count (messages ?q r) = int c + int k"
    "retry_threads ?q = retry_threads p @ map (\<lambda>N. (min (2 ^ N) 5, r)) [Suc c..<Suc (c + k)]"
    "failed_messages ?q = failed_messages p"
    by simp_all
  from Suc.prems ih(1) have lt: "retry_count (messages ?q r) < n" by simp
  have "int c + int k + 1 = int (Suc (c + k))" by simp
  then have d: "retry_delay (retry_count (messages ?q r) + 1) = min (2 ^ Suc (c + k)) 5"
    by (simp only: ih(1) retry_delay_nat)
  have step: "(handle_delivery_failure n r ^^ Suc k) p = handle_delivery_failure n r ?q"
    by simp
  have upt: "[Suc c..<Suc (c + Suc k)] = [Suc c..<Suc (c + k)] @ [Suc (c + k)]"
    by simp
  let ?q' = "handle_delivery_failure n r ?q"
  from handle_delivery_failure_retry[OF lt] have
    a: "retry_count (messages ?q' r) = retry_count (messages ?q r) + 1" and
    b: "retry_threads ?q' = retry_threads ?q @ [(retry_delay (retry_count (messages ?q r) + 1), r)]" and
    c: "failed_messages ?q' = failed_messages ?q"
    by blast+
  have a': "retry_count (messages ?q' r) = int c + int (Suc k)"
    using a ih(1) by simp
  have b': "retry_threads ?q' =
      retry_threads p @ map (\<lambda>N. (min (2 ^ N) 5, r)) [Suc c..<Suc (c + Suc k)]"
    unfolding b d ih(2) upt by simp
  have c': "failed_messages ?q' = failed_messages p"
    using c ih(3) by simp
  show ?case
    unfolding step using a' b' c' by blast
qed

section \<open>The claims\<close>

subsection \<open>C1: the enhanced score and the clamp\<close>

text \<open>
  C1. For every comparison result, even a malformed one, the enhanced score is said to
  lie within [0,1]. The last line of the scoring function clamps, but the early return
  for a \<^verbatim>\<open>comparison_details\<close> that is not a dictionary hands the base score back
  unclamped: a result with similarity score 1.5 and \<^verbatim>\<open>comparison_details\<close> None scores
  1.5.
\<close>

theorem enhanced_score_escapes_clamp:
  "calculate_enhanced_score (str_float sample_ranking_env) unclamped_result = Inr (3 / 2)"
  by code_simp

subsection \<open>C2: rank positions\<close>



subsection \<open>C3: messages that fail validation\<close>

text \<open>
  C3, as amended. A message with an empty sender or receiver, an expired message, or one
  whose payload is no dictionary is rejected by \<^verbatim>\<open>send_message\<close>: it returns false and
  leaves the bus as it was, whatever the state of the receiver. Nothing is appended to
  the failed-messages list on this path.
\<close>

theorem invalid_message_rejected_unrecorded:
  assumes "sender (messages p r) = [] \<or> receiver (messages p r) = [] \<or>
           is_expired now (messages p r) \<or> (\<forall>d. payload (messages p r) \<noteq> PDict d)"
  shows "send_message beh a2a_max_retries now r p = (False, p)"
proof -
  have "\<not> validate_message now (messages p r)"
    using assms by (auto simp: validate_message_def split: pyval.splits)
  then show ?thesis by (simp add: send_message_def)
qed

theorem invalid_message_rejected_unrecorded_witness:
  "send_message sample_behaviour 3 40000000 0 sample_protocol = (False, sample_protocol)"
proof -
  have "is_expired 40000000 (messages sample_protocol 0)"
    by (simp add: is_expired_def sample_protocol_def sample_message_def)
  then have "sender (messages sample_protocol 0) = [] \<or> receiver (messages sample_protocol 0) = [] \<or>
      is_expired 40000000 (messages sample_protocol 0) \<or>
      (\<forall>d. payload (messages sample_protocol 0) \<noteq> PDict d)"
    by simp
  then show ?thesis
    by (rule invalid_message_rejected_unrecorded)
qed

text \<open>
  The claim as stated has the rejected message recorded in the failed list. An expired
  message sent on the sample bus is rejected and the list stays empty.
\<close>

theorem invalid_message_counterexample:
  "fst (send_message sample_behaviour 3 40000000 0 sample_protocol) = False \<and>
   failed_messages (snd (send_message sample_behaviour 3 40000000 0 sample_protocol)) = [] \<and>
   failed_messages (snd (send_message sample_behaviour 3 40000000 0 sample_protocol))
     \<noteq> failed_messages sample_protocol @ [0]"
  by (simp add: send_message_def validate_message_def is_expired_def sample_protocol_def
      sample_message_def fresh_fields_def)

subsection \<open>C4: a ranking whose scores are all zero\<close>




subsection \<open>C5: the retry policy\<close>

text \<open>
  C5. The failure handler never raises a retry count above the maximum. With a retry
  count below the maximum it adds one and starts a retry whose delay is
  \<open>min (2 ^ count) 5\<close> for the new count; otherwise it archives the message as failed,
  starts no retry and leaves the count alone. For a message that starts at 0, the N-th
  retry in a row sleeps \<open>min (2 ^ N) 5\<close>, and the failure after the last allowed retry
  archives it.
\<close>

theorem retry_policy_bounded_backoff:
  "retry_count (messages (handle_delivery_failure a2a_max_retries r p) r)
     \<le> max a2a_max_retries (retry_count (messages p r)) \<and>
   (retry_count (messages p r) < a2a_max_retries \<longrightarrow>
      retry_count (messages (handle_delivery_failure a2a_max_retries r p) r)
        = retry_count (messages p r) + 1 \<and>
      retry_threads (handle_delivery_failure a2a_max_retries r p)
        = retry_threads p @ [(min (2 powi (retry_count (messages p r) + 1)) 5, r)] \<and>
      failed_messages (handle_delivery_failure a2a_max_retries r p) = failed_messages p) \<and>
   (retry_count (messages p r) \<ge> a2a_max_retries \<longrightarrow>
      failed_messages (handle_delivery_failure a2a_max_retries r p) = failed_messages p @ [r] \<and>
      retry_threads (handle_delivery_failure a2a_max_retries r p) = retry_threads p \<and>
      messages (handle_delivery_failure a2a_max_retries r p) = messages p) \<and>
   (retry_count (messages p r) = 0 \<and> int k \<le> a2a_max_retries \<longrightarrow>
      retry_threads ((handle_delivery_failure a2a_max_retries r ^^ k) p)
        = retry_threads p @ map (\<lambda>N. (min (2 ^ N) 5, r)) [1..<Suc k] \<and>
      failed_messages ((handle_delivery_failure a2a_max_retries r ^^ k) p) = failed_messages p) \<and>
   (retry_count (messages p r) = 0 \<and> int k = a2a_max_retries \<longrightarrow>
      failed_messages ((handle_delivery_failure a2a_max_retries r ^^ Suc k) p)
        = failed_messages p @ [r] \<and>
      length (retry_threads ((handle_delivery_failure a2a_max_retries r ^^ Suc k) p))
        = length (retry_threads p) + k)"
proof -
  let ?h = "handle_delivery_failure a2a_max_retries r"
  have step: "retry_count (messages (?h p) r) \<le> max a2a_max_retries (retry_count (messages p r)) \<and>
   (retry_count (messages p r) < a2a_max_retries \<longrightarrow>
      retry_count (messages (?h p) r) = retry_count (messages p r) + 1 \<and>
      retry_threads (?h p) = retry_threads p @ [(min (2 powi (retry_count (messages p r) + 1)) 5, r)] \<and>
      failed_messages (?h p) = failed_messages p) \<and>
   (retry_count (messages p r) \<ge> a2a_max_retries \<longrightarrow>
      failed_messages (?h p) = failed_messages p @ [r] \<and>
      retry_threads (?h p) = retry_threads p \<and>
      messages (?h p) = messages p)"
    by (simp add: handle_delivery_failure_def retry_delay_def Let_def)
  have chain: "retry_threads ((?h ^^ k) p) = retry_threads p @ map (\<lambda>N. (min (2 ^ N) 5, r)) [1..<Suc k] \<and>
      failed_messages ((?h ^^ k) p) = failed_messages p \<and>
      retry_count (messages ((?h ^^ k) p) r) = int k"
    if "retry_count (messages p r) = 0" "int k \<le> a2a_max_retries"
    using retry_chain[of p r 0 k a2a_max_retries] that by simp
  have last: "failed_messages ((?h ^^ Suc k) p) = failed_messages p @ [r] \<and>
      length (retry_threads ((?h ^^ Suc k) p)) = length (retry_threads p) + k"
    if "retry_count (messages p r) = 0" "int k = a2a_max_retries"
  proof -
    let ?q = "(?h ^^ k) p"
    from chain that have q: "retry_threads ?q = retry_threads p @ map (\<lambda>N. (min (2 ^ N) 5, r)) [1..<Suc k]"
      "failed_messages ?q = failed_messages p" "retry_count (messages ?q r) = int k"
      by simp_all
    from q(3) that(2) have "\<not> retry_count (messages ?q r) < a2a_max_retries" by simp
    then have "failed_messages (?h ?q) = failed_messages ?q @ [r]"
      "retry_threads (?h ?q) = retry_threads ?q"
      by (simp_all add: handle_delivery_failure_def)
    with q show ?thesis by simp
  qed
  from step chain last show ?thesis by blast
qed

theorem retry_policy_bounded_backoff_witness:
  "retry_count (messages (handle_delivery_failure 3 0 sample_protocol) 0) = 1 \<and>
   retry_threads (handle_delivery_failure 3 0 sample_protocol) = [(2, 0)] \<and>
   retry_threads ((handle_delivery_failure 3 0 ^^ 3) sample_protocol) = [(2, 0), (4, 0), (5, 0)] \<and>
   failed_messages ((handle_delivery_failure 3 0 ^^ 4) sample_protocol) = [0] \<and>
   failed_messages (handle_delivery_failure 0 0 sample_protocol) = [0]"
proof -
  have rc: "retry_count (messages sample_protocol 0) = 0"
    by (simp add: sample_protocol_def sample_message_def fresh_fields_def)
  have th: "retry_threads sample_protocol = []" and fm: "failed_messages sample_protocol = []"
    by (simp_all add: sample_protocol_def)
  have n4: "(4::nat) = Suc 3"
    by simp
  from retry_policy_bounded_backoff[of 3 0 sample_protocol 3]
       retry_policy_bounded_backoff[of 0 0 sample_protocol 0]
  show ?thesis
    unfolding n4 by (simp add: rc th fm upt_rec)
qed

subsection \<open>C6: an unregistered receiver\<close>

text \<open>
  C6. For a message that passes validation and whose receiver is not registered,
  \<^verbatim>\<open>send_message\<close> returns false and appends the message to the failed list; the message
  and its retry count are untouched (0 stays 0) and no retry is started.
\<close>

theorem unknown_receiver_archived:
  assumes "validate_message now (messages p r)"
    and "map_of (registered_agents p) (receiver (messages p r)) = None"
  shows "send_message beh a2a_max_retries now r p
           = (False, p\<lparr>failed_messages := failed_messages p @ [r]\<rparr>) \<and>
         retry_count (messages (snd (send_message beh a2a_max_retries now r p)) r)
           = retry_count (messages p r) \<and>
         retry_threads (snd (send_message beh a2a_max_retries now r p)) = retry_threads p"
  using assms by (simp add: send_message_def)

theorem unknown_receiver_archived_witness:
  "fst (send_message sample_behaviour 3 10 0 unregistered_protocol) = False \<and>
   failed_messages (snd (send_message sample_behaviour 3 10 0 unregistered_protocol)) = [0] \<and>
   retry_count (messages (snd (send_message sample_behaviour 3 10 0 unregistered_protocol)) 0) = 0 \<and>
   retry_threads (snd (send_message sample_behaviour 3 10 0 unregistered_protocol)) = []"
proof -
  have h1: "validate_message 10 (messages unregistered_protocol 0)"
    by (simp add: validate_message_def is_expired_def unregistered_protocol_def sample_protocol_def
        sample_message_def fresh_fields_def)
  have h2: "map_of (registered_agents unregistered_protocol)
              (receiver (messages unregistered_protocol 0)) = None"
    by (simp add: unregistered_protocol_def)
  from unknown_receiver_archived[OF h1 h2, of sample_behaviour 3] show ?thesis
    by (simp add: unregistered_protocol_def sample_protocol_def sample_message_def fresh_fields_def)
qed

subsection \<open>C7: the similarity-score field of a ranking\<close>




subsection \<open>C8: the expiry of a constructed message\<close>

text \<open>
  C8, as amended. A message constructed without an expiry gets its creation time plus
  the configured timeout, which is not before the creation time when the timeout is not
  negative (and the sum is a date Python can hold); an expiry supplied by the caller is
  kept as it is, unchecked.
\<close>

theorem default_expiry_after_creation:
  "(expires_at m = Some e \<longrightarrow> post_init a2a_message_timeout m = Inr m) \<and>
   (expires_at m = None \<and> 0 \<le> a2a_message_timeout \<and> a2a_message_timeout div 86400 \<le> 999999999 \<and>
    0 \<le> timestamp m \<and> timestamp m + a2a_message_timeout * 1000000 \<le> datetime_max \<longrightarrow>
      post_init a2a_message_timeout m
        = Inr (m\<lparr>expires_at := Some (timestamp m + a2a_message_timeout * 1000000)\<rparr>) \<and>
      timestamp m \<le> timestamp m + a2a_message_timeout * 1000000)"
proof -
  have "- 999999999 \<le> a2a_message_timeout div 86400" if "0 \<le> a2a_message_timeout"
  proof -
    from that have "0 \<le> a2a_message_timeout div 86400" by simp
    then show ?thesis by linarith
  qed
  then show ?thesis
    by (auto simp: post_init_def timedelta_seconds_def datetime_add_def)
qed

theorem default_expiry_after_creation_witness:
  "post_init 30 fresh_fields = Inr sample_message \<and>
   post_init 30 early_expiry_fields = Inr early_expiry_fields"
proof -
  have a: "expires_at fresh_fields = None \<and> (0::int) \<le> 30 \<and> (30::int) div 86400 \<le> 999999999 \<and>
      0 \<le> timestamp fresh_fields \<and> timestamp fresh_fields + 30 * 1000000 \<le> datetime_max"
    by (simp add: fresh_fields_def datetime_max_def)
  have b: "expires_at early_expiry_fields = Some 50"
    by (simp add: early_expiry_fields_def)
  have c: "fresh_fields\<lparr>expires_at := Some (timestamp fresh_fields + 30 * 1000000)\<rparr> = sample_message"
    by (simp add: sample_message_def fresh_fields_def)
  from default_expiry_after_creation[of fresh_fields 0 30]
       default_expiry_after_creation[of early_expiry_fields 50 30] a b c
  show ?thesis by simp
qed

text \<open>
  The claim as stated covers an expiry supplied by the caller. A message created at 100
  with the expiry 50 is constructed as given.
\<close>

theorem supplied_expiry_counterexample:
  "post_init 30 early_expiry_fields = Inr early_expiry_fields \<and>
   expires_at early_expiry_fields = Some 50 \<and> timestamp early_expiry_fields = 100"
  by (simp add: post_init_def early_expiry_fields_def fresh_fields_def)

subsection \<open>C9: a retry does not look at the expiry\<close>

text \<open>
  C9. A retry delivers through \<^verbatim>\<open>_deliver_message_sync\<close> and validates nothing. For a
  message that has expired, which \<^verbatim>\<open>send_message\<close> rejects, a retry whose receiver is
  registered and whose handler returns still delivers it: the handler runs on it and the
  retry ends there, with nothing archived.
\<close>

theorem retry_skips_expiry_check:
  assumes "is_expired now (messages p r)"
    and "map_of (registered_agents p) (receiver (messages p r)) = Some g"
    and "beh (delivery_target (registrations p g)) r (set_status g BUSY p) = (Returned, q)"
  shows "send_message beh a2a_max_retries now r p = (False, p) \<and>
         deliver_message_sync beh r p = (True, set_status g (status (registrations p g)) q) \<and>
         retry_later beh a2a_max_retries r p = set_status g (status (registrations p g)) q"
proof -
  have "\<not> validate_message now (messages p r)"
    using assms(1) by (simp add: validate_message_def)
  then have a: "send_message beh a2a_max_retries now r p = (False, p)"
    by (simp add: send_message_def)
  have b: "deliver_message_sync beh r p = (True, set_status g (status (registrations p g)) q)"
    using assms(2,3) by (simp add: deliver_message_sync_def delivery_target_set_status Let_def)
  then have "retry_later beh a2a_max_retries r p = set_status g (status (registrations p g)) q"
    by (simp add: retry_later_def)
  with a b show ?thesis by simp
qed

theorem retry_skips_expiry_check_witness:
  "send_message sample_behaviour 3 40000000 0 sample_protocol = (False, sample_protocol) \<and>
   deliver_message_sync sample_behaviour 0 sample_protocol =
     (True, set_status 0 (status (registrations sample_protocol 0))
              (set_status 0 BUSY sample_protocol)) \<and>
   retry_later sample_behaviour 3 0 sample_protocol =
     set_status 0 (status (registrations sample_protocol 0)) (set_status 0 BUSY sample_protocol)"
proof -
  have h1: "is_expired 40000000 (messages sample_protocol 0)"
    by (simp add: is_expired_def sample_protocol_def sample_message_def)
  have h2: "map_of (registered_agents sample_protocol) (receiver (messages sample_protocol 0)) = Some 0"
    by (simp add: sample_protocol_def sample_message_def fresh_fields_def)
  have h3: "sample_behaviour (delivery_target (registrations sample_protocol 0)) 0
              (set_status 0 BUSY sample_protocol) = (Returned, set_status 0 BUSY sample_protocol)"
    by (simp add: sample_behaviour_def)
  show ?thesis
    by (rule retry_skips_expiry_check
        [where now = 40000000 and p = sample_protocol and r = 0 and g = 0
           and beh = sample_behaviour and q = "set_status 0 BUSY sample_protocol"
           and a2a_max_retries = 3, OF h1 h2 h3])
qed

subsection \<open>C10: delivery and the status of the receiver\<close>




text \<open>
  The broadcast of a registration does read the status: it delivers to the other agents
  that are ACTIVE, and a handler that raises on the event leaves its agent in ERROR.
\<close>

lemma registration_broadcast_example:
  "fst (register_agent raising_behaviour 30 sample_event_env 10 ''communication_agent'' 1 [] None
          nested_protocol) = None \<and>
   status (registrations (snd (register_agent raising_behaviour 30 sample_event_env 10
          ''communication_agent'' 1 [] None nested_protocol)) 0) = AGENT_ERROR \<and>
   status (registrations (snd (register_agent raising_behaviour 30 sample_event_env 10
          ''communication_agent'' 1 [] None nested_protocol)) 1) = ACTIVE \<and>
   receiver (messages (snd (register_agent raising_behaviour 30 sample_event_env 10
          ''communication_agent'' 1 [] None nested_protocol)) 2) = ''ranking_agent'' \<and>
   next_message (snd (register_agent raising_behaviour 30 sample_event_env 10
          ''communication_agent'' 1 [] None nested_protocol)) = 3 \<and>
   next_message (snd (register_agent raising_behaviour 30 sample_event_env 10
          ''communication_agent'' 1 [] None (set_status 0 INACTIVE nested_protocol))) = 2 \<and>
   status (registrations (snd (register_agent raising_behaviour 30 sample_event_env 10
          ''communication_agent'' 1 [] None (set_status 0 INACTIVE nested_protocol))) 0) = INACTIVE"
  by code_simp

end
